theory Spec2Isabelle
  imports Complex_Main "HOL-Library.AList"
begin

section \<open>The revenue engine of \<open>revenue_tracker.py\<close>\<close>

text \<open>
  A shallow embedding of \<open>src/revenue-engine/revenue_tracker.py\<close>: the dataclasses
  \<open>RevenueMetric\<close> and \<open>ProductRevenue\<close>, the class \<open>QuantumRevenueEngine\<close> and its
  methods. Conventions:
  \<^item> A method is a function of the engine's state (\<open>self\<close>) and its arguments that
    returns the pair of its result and the state afterwards.
  \<^item> The dict \<open>self.products\<close> is an association list in insertion order:
    \<open>d[k] = v\<close> is \<open>AList.update\<close> (an existing key keeps its place, a new key goes
    last), \<open>k in d\<close> and \<open>d[k]\<close> are \<open>map_of\<close>, \<open>d.values()\<close> is \<open>map snd\<close>,
    \<open>d.keys()\<close> is \<open>map fst\<close>.
  \<^item> Python's \<open>int\<close> is \<open>int\<close>. Python's \<open>float\<close> is idealised as \<open>real\<close>: a float
    operation is the exact operation, so rounding is not modelled, nor a result that
    silently leaves the range of a double (\<open>inf\<close>). Where Python raises at the end of
    that range, the model raises too: the true division of two ints, the conversion of
    an int operand to a float, and a float raised to an int power raise
    \<open>OverflowError\<close>.
  \<^item> A \<open>datetime\<close> is the pair of its proleptic Gregorian day number
    (\<open>toordinal()\<close>) and the microsecond within its day; the clock
    (\<open>datetime.utcnow()\<close>) is an argument of every method that reads it. The text
    rendering \<open>isoformat()\<close> is left out: a field that holds the rendering holds the
    \<open>datetime\<close> itself.
  \<^item> The summaries and projections hold the numbers that the source renders with the
    format specs \<open>,.2f\<close> and \<open>.2f\<close>, not the rendered strings.
  \<^item> Console output (\<open>print\<close>) is not part of the engine's state and is left out.
\<close>

subsection \<open>Exceptions and floats\<close>

datatype py_error = OverflowError | ZeroDivisionError

text \<open>
  The largest double is \<open>2 ^ 1024 - 2 ^ 971\<close>. Rounding to nearest, ties to even, takes
  every magnitude below \<open>2 ^ 1024 - 2 ^ 970\<close> to a double and every magnitude from there
  on out of the range.
\<close>

definition DBL_OVERFLOW :: real where
  "DBL_OVERFLOW = 2 ^ 1024 - 2 ^ 970"

definition in_double_range :: "real \<Rightarrow> bool" where
  "in_double_range r = (\<bar>r\<bar> < DBL_OVERFLOW)"

text \<open>
  The conversion of an int operand to a float: \<open>OverflowError\<close> (int too large to
  convert to float) out of the range.
\<close>

definition int_to_float :: "int \<Rightarrow> py_error + real" where
  "int_to_float n =
     (if in_double_range (real_of_int n) then Inr (real_of_int n) else Inl OverflowError)"

text \<open>
  \<open>a / b\<close> for two ints: \<open>ZeroDivisionError\<close> for a zero divisor, \<open>OverflowError\<close>
  (integer division result too large for a float) when the quotient is out of the range.
\<close>

definition int_true_divide :: "int \<Rightarrow> int \<Rightarrow> py_error + real" where
  "int_true_divide a b =
     (if b = 0 then Inl ZeroDivisionError
      else if in_double_range (real_of_int a / real_of_int b)
      then Inr (real_of_int a / real_of_int b)
      else Inl OverflowError)"

text \<open>\<open>x * n\<close> for a float and an int: the int is converted first.\<close>

definition float_mul_int :: "real \<Rightarrow> int \<Rightarrow> py_error + real" where
  "float_mul_int x n = (case int_to_float n of Inl e \<Rightarrow> Inl e | Inr y \<Rightarrow> Inr (x * y))"

text \<open>
  \<open>x ** n\<close> for a float and an int: the int is converted first; zero to a negative power
  raises \<open>ZeroDivisionError\<close>; a power out of the range raises \<open>OverflowError\<close>
  (numerical result out of range).
\<close>

definition float_pow_int :: "real \<Rightarrow> int \<Rightarrow> py_error + real" where
  "float_pow_int x n =
     (case int_to_float n of
        Inl e \<Rightarrow> Inl e
      | Inr _ \<Rightarrow>
          if x = 0 \<and> n < 0 then Inl ZeroDivisionError
          else
            let r = (if 0 \<le> n then x ^ nat n else 1 / x ^ nat (- n))
            in if in_double_range r then Inr r else Inl OverflowError)"

subsection \<open>Dates\<close>

type_synonym datetime = "int \<times> int"

text \<open>\<open>datetime.max.toordinal()\<close>: the day number of 9999-12-31.\<close>

definition MAXORDINAL :: int where
  "MAXORDINAL = 3652059"

definition valid_datetime :: "datetime \<Rightarrow> bool" where
  "valid_datetime d =
     (1 \<le> fst d \<and> fst d \<le> MAXORDINAL \<and> 0 \<le> snd d \<and> snd d < 86400000000)"

text \<open>
  \<open>d + timedelta(days=n)\<close>. The constructor \<open>timedelta\<close> raises \<open>OverflowError\<close> beyond
  999999999 days, and the sum raises \<open>OverflowError\<close> (date value out of range) when
  its day falls outside the years 1 to 9999. The time of day is unchanged.
\<close>

definition datetime_add_days :: "datetime \<Rightarrow> int \<Rightarrow> py_error + datetime" where
  "datetime_add_days d n =
     (if \<bar>n\<bar> > 999999999 then Inl OverflowError
      else if 1 \<le> fst d + n \<and> fst d + n \<le> MAXORDINAL then Inr (fst d + n, snd d)
      else Inl OverflowError)"

subsection \<open>Data classes\<close>

datatype RevenueStream = SAAS_SUBSCRIPTION | USAGE_BASED | ENTERPRISE_LICENSE | MARKETPLACE

record RevenueMetric =
  stream_type :: RevenueStream
  amount :: real
  currency :: string
  timestamp :: datetime
  source_product :: string

record ProductRevenue =
  product_id :: string
  product_name :: string
  pricing_tier_min :: real
  pricing_tier_max :: real
  monthly_recurring_revenue :: real
  active_customers :: int
  churn_rate :: real
  lifetime_value :: real
  revenue_history :: "RevenueMetric list"

record QuantumRevenueEngine =
  products :: "(string \<times> ProductRevenue) list"
  total_revenue_history :: "RevenueMetric list"
  created_at :: datetime

text \<open>\<open>__init__\<close>\<close>

definition init_engine :: "datetime \<Rightarrow> QuantumRevenueEngine" where
  "init_engine now = \<lparr>products = [], total_revenue_history = [], created_at = now\<rparr>"

text \<open>\<open>product_id in self.products\<close>\<close>

definition has_product :: "QuantumRevenueEngine \<Rightarrow> string \<Rightarrow> bool" where
  "has_product s pid = (map_of (products s) pid \<noteq> None)"

text \<open>The dict's invariant: no key twice.\<close>

definition wf_engine :: "QuantumRevenueEngine \<Rightarrow> bool" where
  "wf_engine s = distinct (map fst (products s))"

subsection \<open>Mutators\<close>

definition register_product ::
  "QuantumRevenueEngine \<Rightarrow> string \<Rightarrow> string \<Rightarrow> real \<Rightarrow> real \<Rightarrow> real
     \<Rightarrow> ProductRevenue \<times> QuantumRevenueEngine" where
  "register_product s pid name pricing_min pricing_max target_mrr =
     (let product = \<lparr>product_id = pid, product_name = name,
                      pricing_tier_min = pricing_min, pricing_tier_max = pricing_max,
                      monthly_recurring_revenue = target_mrr,
                      active_customers = 0, churn_rate = 0, lifetime_value = 0,
                      revenue_history = []\<rparr>
      in (product, s\<lparr>products := AList.update pid product (products s)\<rparr>))"

definition record_transaction ::
  "datetime \<Rightarrow> QuantumRevenueEngine \<Rightarrow> string \<Rightarrow> real \<Rightarrow> RevenueStream
     \<Rightarrow> bool \<times> QuantumRevenueEngine" where
  "record_transaction now s pid amt stream =
     (if \<not> has_product s pid then (False, s)
      else
        let metric = \<lparr>stream_type = stream, amount = amt, currency = ''USD'',
                        timestamp = now, source_product = pid\<rparr>
        in (True,
            s\<lparr>products :=
                 AList.map_entry pid
                   (\<lambda>p. p\<lparr>revenue_history := revenue_history p @ [metric]\<rparr>) (products s),
               total_revenue_history := total_revenue_history s @ [metric]\<rparr>))"

definition update_customer_count ::
  "QuantumRevenueEngine \<Rightarrow> string \<Rightarrow> int \<Rightarrow> bool \<times> QuantumRevenueEngine" where
  "update_customer_count s pid customer_count =
     (if \<not> has_product s pid then (False, s)
      else (True,
            s\<lparr>products :=
                 AList.map_entry pid (\<lambda>p. p\<lparr>active_customers := customer_count\<rparr>)
                   (products s)\<rparr>))"

text \<open>
  \<open>previous_customers - current_customers\<close> and \<open>max\<close> are integer operations; \<open>/\<close> is
  the true division of two ints, and its float result is multiplied by the int 100. An
  exception leaves the method before the store.
\<close>

definition calculate_churn_rate ::
  "QuantumRevenueEngine \<Rightarrow> string \<Rightarrow> int \<Rightarrow> int \<Rightarrow> int
     \<Rightarrow> (py_error + real) \<times> QuantumRevenueEngine" where
  "calculate_churn_rate s pid previous_customers current_customers period_days =
     (if previous_customers = 0 then (Inr 0, s)
      else
        let churned = max 0 (previous_customers - current_customers)
        in case int_true_divide churned previous_customers of
             Inl e \<Rightarrow> (Inl e, s)
           | Inr ratio \<Rightarrow>
               (case float_mul_int ratio 100 of
                  Inl e \<Rightarrow> (Inl e, s)
                | Inr rate \<Rightarrow>
                    (Inr rate,
                     if has_product s pid
                     then s\<lparr>products :=
                             AList.map_entry pid (\<lambda>p. p\<lparr>churn_rate := rate\<rparr>) (products s)\<rparr>
                     else s)))"

text \<open>\<open>avg_monthly_revenue\<close> is a float and \<open>avg_customer_lifespan_months\<close> an int.\<close>

definition calculate_ltv ::
  "QuantumRevenueEngine \<Rightarrow> string \<Rightarrow> real \<Rightarrow> int
     \<Rightarrow> (py_error + real) \<times> QuantumRevenueEngine" where
  "calculate_ltv s pid avg_monthly_revenue avg_customer_lifespan_months =
     (case float_mul_int avg_monthly_revenue avg_customer_lifespan_months of
        Inl e \<Rightarrow> (Inl e, s)
      | Inr ltv \<Rightarrow>
          (Inr ltv,
           if has_product s pid
           then s\<lparr>products :=
                   AList.map_entry pid (\<lambda>p. p\<lparr>lifetime_value := ltv\<rparr>) (products s)\<rparr>
           else s))"

subsection \<open>Summaries\<close>

text \<open>The builtin \<open>sum\<close>: it adds from the left, starting at 0.\<close>

definition py_sum :: "'a::monoid_add list \<Rightarrow> 'a" where
  "py_sum xs = foldl (+) 0 xs"

record product_summary =
  summary_product_id :: string
  summary_product_name :: string
  summary_target_mrr :: real
  summary_annual_run_rate :: real
  summary_active_customers :: int
  summary_churn_rate :: real
  summary_lifetime_value :: real
  summary_total_recorded_revenue :: real
  summary_pricing_range :: "real \<times> real"

definition get_product_summary ::
  "QuantumRevenueEngine \<Rightarrow> string \<Rightarrow> product_summary option \<times> QuantumRevenueEngine" where
  "get_product_summary s pid =
     (case map_of (products s) pid of
        None \<Rightarrow> (None, s)
      | Some product \<Rightarrow>
          let total_transactions = py_sum (map amount (revenue_history product))
          in (Some \<lparr>summary_product_id = product_id product,
                     summary_product_name = product_name product,
                     summary_target_mrr = monthly_recurring_revenue product,
                     summary_annual_run_rate = monthly_recurring_revenue product * 12,
                     summary_active_customers = active_customers product,
                     summary_churn_rate = churn_rate product,
                     summary_lifetime_value = lifetime_value product,
                     summary_total_recorded_revenue = total_transactions,
                     summary_pricing_range =
                       (pricing_tier_min product, pricing_tier_max product)\<rparr>, s))"

record portfolio_summary =
  total_products :: nat
  total_mrr :: real
  total_arr :: real
  total_active_customers :: int
  average_churn_rate :: real
  portfolio :: "product_summary option list"

definition get_portfolio_summary ::
  "QuantumRevenueEngine \<Rightarrow> portfolio_summary \<times> QuantumRevenueEngine" where
  "get_portfolio_summary s =
     (let vals = map snd (products s);
          mrr_sum = py_sum (map monthly_recurring_revenue vals);
          arr = mrr_sum * 12;
          total_customers = py_sum (map active_customers vals);
          avg_churn = (if products s \<noteq> []
                       then py_sum (map churn_rate vals) / real (length (products s))
                       else 0)
      in (\<lparr>total_products = length (products s),
           total_mrr = mrr_sum,
           total_arr = arr,
           total_active_customers = total_customers,
           average_churn_rate = avg_churn,
           portfolio = map (\<lambda>pid. fst (get_product_summary s pid)) (map fst (products s))\<rparr>,
          s))"

subsection \<open>Projection\<close>

record projection =
  month :: int
  date :: datetime
  projected_mrr :: real
  projected_arr :: real

record projection_result =
  projection_period_months :: int
  projections :: "projection list"

text \<open>
  The inner loop over \<open>self.products.values()\<close>, with the \<open>total_projected\<close> so far: for
  each product \<open>churn_factor ** month\<close>, a float raised to an int, then a product and a
  sum of floats. An exception of the power leaves the loop.
\<close>

fun total_projected_loop :: "ProductRevenue list \<Rightarrow> int \<Rightarrow> real \<Rightarrow> py_error + real" where
  "total_projected_loop [] mon total_projected = Inr total_projected"
| "total_projected_loop (product # rest) mon total_projected =
     (let churn_factor = 1 - (churn_rate product / 100)
      in case float_pow_int churn_factor mon of
           Inl e \<Rightarrow> Inl e
         | Inr factor \<Rightarrow>
             let projected = monthly_recurring_revenue product * factor
             in total_projected_loop rest mon (total_projected + projected))"

text \<open>
  The outer loop over \<open>range(1, months + 1)\<close>, with the list \<open>projections\<close> built so far.
  An exception of the date arithmetic or of the inner loop leaves the loop and the
  method.
\<close>

fun project_months ::
  "datetime \<Rightarrow> (string \<times> ProductRevenue) list \<Rightarrow> int list \<Rightarrow> projection list
     \<Rightarrow> py_error + projection list" where
  "project_months current_date ps [] projs = Inr projs"
| "project_months current_date ps (mon # rest) projs =
     (case datetime_add_days current_date (30 * mon) of
        Inl e \<Rightarrow> Inl e
      | Inr projection_date \<Rightarrow>
          (case total_projected_loop (map snd ps) mon 0 of
             Inl e \<Rightarrow> Inl e
           | Inr total_projected \<Rightarrow>
               project_months current_date ps rest
                 (projs @ [\<lparr>month = mon, date = projection_date,
                             projected_mrr = total_projected,
                             projected_arr = total_projected * 12\<rparr>])))"

definition project_revenue ::
  "datetime \<Rightarrow> QuantumRevenueEngine \<Rightarrow> int
     \<Rightarrow> (py_error + projection_result) \<times> QuantumRevenueEngine" where
  "project_revenue now s months =
     (case project_months now (products s) [1..months] [] of
        Inl e \<Rightarrow> (Inl e, s)
      | Inr projs \<Rightarrow>
          (Inr \<lparr>projection_period_months = months, projections = projs\<rparr>, s))"

text \<open>
  The sum that the inner loop computes for the month \<open>mon\<close> when no power raises, and
  the entry that one round of the outer loop then appends, when the projection date is
  a date of the calendar.
\<close>

definition total_projected_of :: "(string \<times> ProductRevenue) list \<Rightarrow> int \<Rightarrow> real" where
  "total_projected_of ps mon =
     (\<Sum>p\<leftarrow>map snd ps. monthly_recurring_revenue p * (1 - churn_rate p / 100) ^ nat mon)"

definition projection_of ::
  "datetime \<Rightarrow> (string \<times> ProductRevenue) list \<Rightarrow> int \<Rightarrow> projection" where
  "projection_of current_date ps mon =
     \<lparr>month = mon, date = (fst current_date + 30 * mon, snd current_date),
      projected_mrr = total_projected_of ps mon,
      projected_arr = total_projected_of ps mon * 12\<rparr>"

subsection \<open>The example run of the module\<close>

text \<open>
  The state that the module's \<open>__main__\<close> block has built when it prints its summary
  (lemma \<open>demo_engine_built\<close> below), at a clock reading of 2025-12-01T00:00:00.
\<close>

definition demo_now :: datetime where
  "demo_now = (739586, 0)"

definition demo_engine :: QuantumRevenueEngine where
  "demo_engine =
     \<lparr>products =
        [(''mesh-messenger'',
          \<lparr>product_id = ''mesh-messenger'', product_name = ''Zero-Human Mesh Messenger'',
           pricing_tier_min = 9, pricing_tier_max = 99, monthly_recurring_revenue = 14500,
           active_customers = 2000, churn_rate = 100 / 21, lifetime_value = 1740,
           revenue_history = []\<rparr>),
         (''governance-platform'',
          \<lparr>product_id = ''governance-platform'',
           product_name = ''Zero-Human AI Governance Platform'',
           pricing_tier_min = 299, pricing_tier_max = 1999, monthly_recurring_revenue = 50000,
           active_customers = 50, churn_rate = 50 / 13, lifetime_value = 24000,
           revenue_history = []\<rparr>)],
      total_revenue_history = [], created_at = demo_now\<rparr>"

text \<open>
  The state of the example after a transaction on \<open>mesh-messenger\<close>, and after that
  product is then registered a second time.
\<close>

definition demo_recorded :: QuantumRevenueEngine where
  "demo_recorded =
     snd (record_transaction demo_now demo_engine ''mesh-messenger'' 99 SAAS_SUBSCRIPTION)"

definition demo_reregistered :: QuantumRevenueEngine where
  "demo_reregistered =
     snd (register_product demo_recorded ''mesh-messenger'' ''Mesh Messenger 2'' 19 199 20000)"

text \<open>The example with a third product, which has no churn.\<close>

definition demo_with_p1 :: QuantumRevenueEngine where
  "demo_with_p1 = snd (register_product demo_engine ''p1'' ''Demo'' 9 99 14500)"

text \<open>
  An engine whose one product has the churn rate -100: the customer counts -1 and -2
  are integers, and the method checks no range.
\<close>

definition growth_engine :: QuantumRevenueEngine where
  "growth_engine =
     snd (calculate_churn_rate
            (snd (register_product (init_engine demo_now) ''x'' ''Growth'' 1 2 100))
            ''x'' (- 1) (- 2) 30)"

section \<open>Properties\<close>

subsection \<open>The range of a double\<close>

lemma DBL_OVERFLOW_ge: "2 ^ 970 \<le> DBL_OVERFLOW"
proof -
  have "(2::real) ^ 1024 = 2 ^ 970 * 2 ^ 54"
    by (simp add: power_add [symmetric])
  moreover have "(2::real) \<le> 2 ^ 54"
    by (rule self_le_power) simp_all
  ultimately have "(2::real) ^ 970 * 2 \<le> 2 ^ 1024"
    by simp
  then show ?thesis
    by (simp add: DBL_OVERFLOW_def)
qed

lemma in_double_range_small: "\<bar>r\<bar> \<le> 1000000 \<Longrightarrow> in_double_range r"
proof -
  assume r: "\<bar>r\<bar> \<le> 1000000"
  have "(1000000::real) < 2 ^ 20" by simp
  also have "(2::real) ^ 20 \<le> 2 ^ 970" by (rule power_increasing) simp_all
  also note DBL_OVERFLOW_ge
  finally show ?thesis using r by (simp add: in_double_range_def)
qed

lemma int_to_float_small:
  "\<bar>real_of_int n\<bar> \<le> 1000000 \<Longrightarrow> int_to_float n = Inr (real_of_int n)"
  by (simp add: int_to_float_def in_double_range_small)

lemma float_mul_int_small:
  "\<bar>real_of_int n\<bar> \<le> 1000000 \<Longrightarrow> float_mul_int x n = Inr (x * real_of_int n)"
  by (simp add: float_mul_int_def int_to_float_small)

lemma float_mul_int_in_range:
  "in_double_range (real_of_int n) \<Longrightarrow> float_mul_int x n = Inr (x * real_of_int n)"
  by (simp add: float_mul_int_def int_to_float_def)

lemma float_mul_int_overflow:
  "\<not> in_double_range (real_of_int n) \<Longrightarrow> float_mul_int x n = Inl OverflowError"
  by (simp add: float_mul_int_def int_to_float_def)

lemma int_true_divide_in_range:
  "b \<noteq> 0 \<Longrightarrow> in_double_range (real_of_int a / real_of_int b) \<Longrightarrow>
     int_true_divide a b = Inr (real_of_int a / real_of_int b)"
  by (simp add: int_true_divide_def)

lemma int_true_divide_overflow:
  "b \<noteq> 0 \<Longrightarrow> \<not> in_double_range (real_of_int a / real_of_int b) \<Longrightarrow>
     int_true_divide a b = Inl OverflowError"
  by (simp add: int_true_divide_def)

lemma in_double_range_power_le_one: "\<bar>x\<bar> \<le> 1 \<Longrightarrow> in_double_range (x ^ n)"
proof -
  assume "\<bar>x\<bar> \<le> 1"
  then have "\<bar>x\<bar> ^ n \<le> 1"
    by (simp add: power_le_one)
  then have "\<bar>x ^ n\<bar> \<le> 1000000"
    by (simp add: power_abs)
  then show ?thesis
    by (rule in_double_range_small)
qed

text \<open>A power within the range has every lower power within the range.\<close>

lemma in_double_range_power_mono:
  assumes "in_double_range (x ^ n)" and "m \<le> n"
  shows "in_double_range (x ^ m)"
proof (cases "\<bar>x\<bar> \<le> 1")
  case True
  then have "\<bar>x\<bar> ^ m \<le> 1"
    by (simp add: power_le_one)
  then have "\<bar>x ^ m\<bar> \<le> 1000000"
    by (simp add: power_abs)
  then show ?thesis
    by (rule in_double_range_small)
next
  case False
  then have "\<bar>x\<bar> ^ m \<le> \<bar>x\<bar> ^ n"
    using assms(2) by (intro power_increasing) simp_all
  then show ?thesis
    using assms(1) by (simp add: in_double_range_def power_abs)
qed

lemma float_pow_int_in_range:
  "0 \<le> n \<Longrightarrow> in_double_range (real_of_int n) \<Longrightarrow> in_double_range (x ^ nat n) \<Longrightarrow>
     float_pow_int x n = Inr (x ^ nat n)"
  by (simp add: float_pow_int_def int_to_float_def)

lemma float_pow_int_overflow:
  "0 \<le> n \<Longrightarrow> \<not> in_double_range (x ^ nat n) \<Longrightarrow> float_pow_int x n = Inl OverflowError"
  by (simp add: float_pow_int_def int_to_float_def)

lemma float_pow_int_error:
  "0 \<le> n \<Longrightarrow> float_pow_int x n = Inl e \<Longrightarrow> e = OverflowError"
  by (auto simp: float_pow_int_def int_to_float_def Let_def split: if_splits)

subsection \<open>The dict invariant\<close>

lemma wf_init_engine: "wf_engine (init_engine now)"
  by (simp add: wf_engine_def init_engine_def)

lemma wf_register_product:
  "wf_engine s \<Longrightarrow> wf_engine (snd (register_product s pid name pmin pmax mrr))"
  by (simp add: wf_engine_def register_product_def Let_def distinct_update)

lemma wf_record_transaction:
  "wf_engine s \<Longrightarrow> wf_engine (snd (record_transaction now s pid amt stream))"
  by (simp add: wf_engine_def record_transaction_def Let_def distinct_map_entry)

lemma wf_update_customer_count:
  "wf_engine s \<Longrightarrow> wf_engine (snd (update_customer_count s pid n))"
  by (simp add: wf_engine_def update_customer_count_def distinct_map_entry)

lemma wf_calculate_churn_rate:
  "wf_engine s \<Longrightarrow> wf_engine (snd (calculate_churn_rate s pid prev cur days))"
  by (simp add: wf_engine_def calculate_churn_rate_def Let_def distinct_map_entry
      split: sum.splits)

lemma wf_calculate_ltv:
  "wf_engine s \<Longrightarrow> wf_engine (snd (calculate_ltv s pid revenue lifespan))"
  by (simp add: wf_engine_def calculate_ltv_def distinct_map_entry split: sum.splits)

subsection \<open>Association lists as dicts\<close>

lemma map_entry_keys: "map fst (AList.map_entry k f xs) = map fst xs"
  by (induction xs) auto

lemma map_of_map_entry_same:
  "map_of xs k = Some v \<Longrightarrow> map_of (AList.map_entry k f xs) k = Some (f v)"
  by (simp add: map_of_map_entry)

lemma map_of_map_entry_other:
  "k' \<noteq> k \<Longrightarrow> map_of (AList.map_entry k f xs) k' = map_of xs k'"
  by (simp add: map_of_map_entry)

lemma update_other_entries:
  "filter (\<lambda>e. fst e \<noteq> k) (AList.update k v xs) = filter (\<lambda>e. fst e \<noteq> k) xs"
  by (induction xs) auto

lemma foldl_plus_sum_list: "foldl (+) a xs = a + sum_list xs"
  for a :: "'a::monoid_add"
  by (induction xs arbitrary: a) (simp_all add: add.assoc)

lemma py_sum_sum_list: "py_sum xs = sum_list xs"
  by (simp add: py_sum_def foldl_plus_sum_list)

text \<open>Without a repeated key, a sum over the values is the sum over the keys.\<close>

lemma sum_list_values_dom:
  "distinct (map fst ps) \<Longrightarrow>
     (\<Sum>p\<leftarrow>map snd ps. f p) = (\<Sum>k\<in>dom (map_of ps). f (the (map_of ps k)))"
  for f :: "'v \<Rightarrow> 'a::comm_monoid_add"
proof (induction ps)
  case Nil
  then show ?case by simp
next
  case (Cons e ps)
  obtain k v where e: "e = (k, v)" by (cases e)
  from Cons.prems e have fresh: "k \<notin> dom (map_of ps)" and d: "distinct (map fst ps)"
    by (auto simp: dom_map_of_conv_image_fst)
  let ?g = "\<lambda>k'. f (the (map_of (e # ps) k'))"
  have dom: "dom (map_of (e # ps)) = insert k (dom (map_of ps))"
    using e by auto
  have rest:
    "(\<Sum>k'\<in>dom (map_of ps). ?g k') = (\<Sum>k'\<in>dom (map_of ps). f (the (map_of ps k')))"
    using fresh e by (intro sum.cong) auto
  have "(\<Sum>p\<leftarrow>map snd (e # ps). f p) = f v + (\<Sum>p\<leftarrow>map snd ps. f p)"
    using e by simp
  also have "\<dots> = ?g k + (\<Sum>k'\<in>dom (map_of ps). ?g k')"
    using Cons.IH [OF d] rest e by simp
  also have "\<dots> = (\<Sum>k'\<in>insert k (dom (map_of ps)). ?g k')"
    by (rule sum.insert [OF finite_dom_map_of fresh, symmetric])
  finally show ?case
    by (simp only: dom)
qed

subsection \<open>The example states\<close>

lemma demo_engine_built:
  "snd (calculate_ltv (snd (calculate_ltv
     (snd (calculate_churn_rate (snd (calculate_churn_rate
       (snd (update_customer_count (snd (update_customer_count
         (snd (register_product (snd (register_product (init_engine demo_now)
             ''mesh-messenger'' ''Zero-Human Mesh Messenger'' 9 99 14500))
           ''governance-platform'' ''Zero-Human AI Governance Platform'' 299 1999 50000))
         ''mesh-messenger'' 2000)) ''governance-platform'' 50))
       ''mesh-messenger'' 2100 2000 30)) ''governance-platform'' 52 50 30))
     ''mesh-messenger'' 72.5 24)) ''governance-platform'' 1000 24) = demo_engine"
proof -
  let ?s1 = "snd (register_product (init_engine demo_now)
               ''mesh-messenger'' ''Zero-Human Mesh Messenger'' 9 99 14500)"
  have first: "?s1 =
      \<lparr>products =
         [(''mesh-messenger'',
           \<lparr>product_id = ''mesh-messenger'', product_name = ''Zero-Human Mesh Messenger'',
            pricing_tier_min = 9, pricing_tier_max = 99, monthly_recurring_revenue = 14500,
            active_customers = 0, churn_rate = 0, lifetime_value = 0,
            revenue_history = []\<rparr>)],
       total_revenue_history = [], created_at = demo_now\<rparr>"
    by (simp add: init_engine_def register_product_def Let_def)
  have second:
    "snd (register_product ?s1 ''governance-platform''
            ''Zero-Human AI Governance Platform'' 299 1999 50000) =
      \<lparr>products =
         [(''mesh-messenger'',
           \<lparr>product_id = ''mesh-messenger'', product_name = ''Zero-Human Mesh Messenger'',
            pricing_tier_min = 9, pricing_tier_max = 99, monthly_recurring_revenue = 14500,
            active_customers = 0, churn_rate = 0, lifetime_value = 0,
            revenue_history = []\<rparr>),
          (''governance-platform'',
           \<lparr>product_id = ''governance-platform'',
            product_name = ''Zero-Human AI Governance Platform'',
            pricing_tier_min = 299, pricing_tier_max = 1999,
            monthly_recurring_revenue = 50000,
            active_customers = 0, churn_rate = 0, lifetime_value = 0,
            revenue_history = []\<rparr>)],
       total_revenue_history = [], created_at = demo_now\<rparr>"
    unfolding first by (simp add: register_product_def Let_def)
  show ?thesis
    unfolding second
    by (simp add: demo_engine_def update_customer_count_def calculate_churn_rate_def
        calculate_ltv_def has_product_def Let_def int_true_divide_in_range
        float_mul_int_small in_double_range_small)
qed

lemma wf_demo_engine: "wf_engine demo_engine"
  by (simp add: demo_engine_def wf_engine_def)

lemma demo_recorded_eq:
  "demo_recorded =
     \<lparr>products =
        [(''mesh-messenger'',
          \<lparr>product_id = ''mesh-messenger'', product_name = ''Zero-Human Mesh Messenger'',
           pricing_tier_min = 9, pricing_tier_max = 99, monthly_recurring_revenue = 14500,
           active_customers = 2000, churn_rate = 100 / 21, lifetime_value = 1740,
           revenue_history =
             [\<lparr>stream_type = SAAS_SUBSCRIPTION, amount = 99, currency = ''USD'',
               timestamp = demo_now, source_product = ''mesh-messenger''\<rparr>]\<rparr>),
         (''governance-platform'',
          \<lparr>product_id = ''governance-platform'',
           product_name = ''Zero-Human AI Governance Platform'',
           pricing_tier_min = 299, pricing_tier_max = 1999, monthly_recurring_revenue = 50000,
           active_customers = 50, churn_rate = 50 / 13, lifetime_value = 24000,
           revenue_history = []\<rparr>)],
      total_revenue_history =
        [\<lparr>stream_type = SAAS_SUBSCRIPTION, amount = 99, currency = ''USD'',
          timestamp = demo_now, source_product = ''mesh-messenger''\<rparr>],
      created_at = demo_now\<rparr>"
  by (simp add: demo_recorded_def demo_engine_def record_transaction_def has_product_def Let_def)

lemma demo_with_p1_products:
  "map snd (products demo_with_p1) =
     [\<lparr>product_id = ''mesh-messenger'', product_name = ''Zero-Human Mesh Messenger'',
       pricing_tier_min = 9, pricing_tier_max = 99, monthly_recurring_revenue = 14500,
       active_customers = 2000, churn_rate = 100 / 21, lifetime_value = 1740,
       revenue_history = []\<rparr>,
      \<lparr>product_id = ''governance-platform'',
       product_name = ''Zero-Human AI Governance Platform'',
       pricing_tier_min = 299, pricing_tier_max = 1999, monthly_recurring_revenue = 50000,
       active_customers = 50, churn_rate = 50 / 13, lifetime_value = 24000,
       revenue_history = []\<rparr>,
      \<lparr>product_id = ''p1'', product_name = ''Demo'',
       pricing_tier_min = 9, pricing_tier_max = 99, monthly_recurring_revenue = 14500,
       active_customers = 0, churn_rate = 0, lifetime_value = 0, revenue_history = []\<rparr>]"
  by (simp add: demo_with_p1_def demo_engine_def register_product_def Let_def)

lemma growth_engine_products:
  "map snd (products growth_engine) =
     [\<lparr>product_id = ''x'', product_name = ''Growth'',
       pricing_tier_min = 1, pricing_tier_max = 2, monthly_recurring_revenue = 100,
       active_customers = 0, churn_rate = - 100, lifetime_value = 0, revenue_history = []\<rparr>]"
  by (simp add: growth_engine_def init_engine_def register_product_def
      calculate_churn_rate_def has_product_def Let_def int_true_divide_in_range
      float_mul_int_small in_double_range_small)

subsection \<open>Registration\<close>

text \<open>
  Claim C5. For every state and all arguments, \<open>register_product\<close> installs under
  \<open>product_id\<close> a record with \<open>active_customers = 0\<close>, \<open>churn_rate = 0\<close>,
  \<open>lifetime_value = 0\<close> and an empty \<open>revenue_history\<close>, whether or not the id was
  registered before (the state is arbitrary); so a product registered again has a
  history of length 0, whatever was recorded for it before.
\<close>

theorem register_product_installs:
  "fst (register_product s pid name pricing_min pricing_max target_mrr) =
     \<lparr>product_id = pid, product_name = name,
      pricing_tier_min = pricing_min, pricing_tier_max = pricing_max,
      monthly_recurring_revenue = target_mrr,
      active_customers = 0, churn_rate = 0, lifetime_value = 0, revenue_history = []\<rparr>
   \<and> map_of (products (snd (register_product s pid name pricing_min pricing_max target_mrr))) pid =
     Some \<lparr>product_id = pid, product_name = name,
           pricing_tier_min = pricing_min, pricing_tier_max = pricing_max,
           monthly_recurring_revenue = target_mrr,
           active_customers = 0, churn_rate = 0, lifetime_value = 0, revenue_history = []\<rparr>
   \<and> map_option (length \<circ> revenue_history)
        (map_of (products (snd (register_product
           (snd (record_transaction now s pid amt stream))
           pid name pricing_min pricing_max target_mrr))) pid) = Some 0"
  by (simp add: register_product_def Let_def update_conv')

theorem register_product_installs_witness:
  "map_option (length \<circ> revenue_history)
     (map_of (products demo_recorded) ''mesh-messenger'') = Some 1
   \<and> map_of (products demo_reregistered) ''mesh-messenger'' =
     Some \<lparr>product_id = ''mesh-messenger'', product_name = ''Mesh Messenger 2'',
           pricing_tier_min = 19, pricing_tier_max = 199,
           monthly_recurring_revenue = 20000,
           active_customers = 0, churn_rate = 0, lifetime_value = 0, revenue_history = []\<rparr>"
proof -
  have "map_option (length \<circ> revenue_history)
     (map_of (products demo_recorded) ''mesh-messenger'') = Some 1"
    by (simp add: demo_recorded_eq)
  with register_product_installs
         [of demo_recorded "''mesh-messenger''" "''Mesh Messenger 2''" 19 199 20000]
  show ?thesis
    by (simp add: demo_reregistered_def)
qed

text \<open>
  Claim C10. \<open>register_product\<close> changes only the entry of the product mapping for the
  given id: the global transaction history and the creation time are unchanged, every
  other id maps to what it mapped to before, and the other entries keep their order. So
  what was recorded for a product stays in the global history when the product is
  registered again, although the product's own history is then empty.
\<close>

theorem register_product_frame:
  "total_revenue_history (snd (register_product s pid name pricing_min pricing_max target_mrr))
     = total_revenue_history s
   \<and> created_at (snd (register_product s pid name pricing_min pricing_max target_mrr))
     = created_at s
   \<and> (\<forall>k. k \<noteq> pid \<longrightarrow>
         map_of (products (snd (register_product s pid name pricing_min pricing_max target_mrr))) k
           = map_of (products s) k)
   \<and> filter (\<lambda>e. fst e \<noteq> pid)
        (products (snd (register_product s pid name pricing_min pricing_max target_mrr)))
     = filter (\<lambda>e. fst e \<noteq> pid) (products s)"
  by (simp add: register_product_def Let_def update_conv' update_other_entries)

theorem register_product_frame_witness:
  "total_revenue_history demo_reregistered =
     [\<lparr>stream_type = SAAS_SUBSCRIPTION, amount = 99, currency = ''USD'',
       timestamp = demo_now, source_product = ''mesh-messenger''\<rparr>]
   \<and> map_option revenue_history (map_of (products demo_reregistered) ''mesh-messenger'')
     = Some []
   \<and> ''governance-platform'' \<noteq> ''mesh-messenger''
   \<and> map_of (products demo_reregistered) ''governance-platform''
     = map_of (products demo_engine) ''governance-platform''"
proof -
  have before: "total_revenue_history demo_recorded =
     [\<lparr>stream_type = SAAS_SUBSCRIPTION, amount = 99, currency = ''USD'',
       timestamp = demo_now, source_product = ''mesh-messenger''\<rparr>]"
    and other: "map_of (products demo_recorded) ''governance-platform''
     = map_of (products demo_engine) ''governance-platform''"
    by (simp_all add: demo_recorded_eq demo_engine_def)
  have own: "map_option revenue_history (map_of (products demo_reregistered) ''mesh-messenger'')
     = Some []"
    by (simp add: demo_reregistered_def register_product_def Let_def update_conv')
  have frame: "total_revenue_history demo_reregistered = total_revenue_history demo_recorded"
    "map_of (products demo_reregistered) ''governance-platform''
       = map_of (products demo_recorded) ''governance-platform''"
    using register_product_frame
            [of demo_recorded "''mesh-messenger''" "''Mesh Messenger 2''" 19 199 20000]
    by (simp_all add: demo_reregistered_def)
  show ?thesis
    using before other own frame by simp
qed

subsection \<open>Transactions\<close>

text \<open>
  Claim C3. For a \<open>product_id\<close> that is not in the product mapping,
  \<open>record_transaction\<close> returns false and leaves the whole state unchanged (so the
  global history too). For a registered \<open>product_id\<close> it returns true and appends
  one new metric, the same one, to that product's \<open>revenue_history\<close> and to the global
  history, whatever the amount is; the other products, the order of the keys and
  the creation time are unchanged.
\<close>

theorem record_transaction_spec:
  "(\<not> has_product s pid \<longrightarrow> record_transaction now s pid amt stream = (False, s))
   \<and> (\<forall>p. map_of (products s) pid = Some p \<longrightarrow>
         (let metric = \<lparr>stream_type = stream, amount = amt, currency = ''USD'',
                         timestamp = now, source_product = pid\<rparr>;
              s' = snd (record_transaction now s pid amt stream)
          in fst (record_transaction now s pid amt stream)
             \<and> total_revenue_history s' = total_revenue_history s @ [metric]
             \<and> map_of (products s') pid
                 = Some (p\<lparr>revenue_history := revenue_history p @ [metric]\<rparr>)
             \<and> (\<forall>k. k \<noteq> pid \<longrightarrow> map_of (products s') k = map_of (products s) k)
             \<and> map fst (products s') = map fst (products s)
             \<and> created_at s' = created_at s))"
  by (simp add: record_transaction_def has_product_def Let_def map_entry_keys
      map_of_map_entry_same map_of_map_entry_other)

theorem record_transaction_spec_witness:
  "\<not> has_product demo_engine ''unknown''
   \<and> record_transaction demo_now demo_engine ''unknown'' 10 MARKETPLACE = (False, demo_engine)
   \<and> has_product demo_engine ''governance-platform''
   \<and> fst (record_transaction demo_now demo_engine ''governance-platform'' (- 5) USAGE_BASED)
   \<and> total_revenue_history
        (snd (record_transaction demo_now demo_engine ''governance-platform'' (- 5) USAGE_BASED))
     = [\<lparr>stream_type = USAGE_BASED, amount = - 5, currency = ''USD'',
         timestamp = demo_now, source_product = ''governance-platform''\<rparr>]
   \<and> map_option revenue_history
        (map_of (products
           (snd (record_transaction demo_now demo_engine ''governance-platform'' (- 5) USAGE_BASED)))
           ''governance-platform'')
     = Some [\<lparr>stream_type = USAGE_BASED, amount = - 5, currency = ''USD'',
              timestamp = demo_now, source_product = ''governance-platform''\<rparr>]"
proof -
  have absent: "\<not> has_product demo_engine ''unknown''"
    and present: "has_product demo_engine ''governance-platform''"
    and entry: "map_of (products demo_engine) ''governance-platform'' =
      Some \<lparr>product_id = ''governance-platform'',
           product_name = ''Zero-Human AI Governance Platform'',
           pricing_tier_min = 299, pricing_tier_max = 1999, monthly_recurring_revenue = 50000,
           active_customers = 50, churn_rate = 50 / 13, lifetime_value = 24000,
           revenue_history = []\<rparr>"
    and empty: "total_revenue_history demo_engine = []"
    by (simp_all add: demo_engine_def has_product_def)
  from absent
    record_transaction_spec [of demo_engine "''unknown''" demo_now 10 MARKETPLACE]
  have unknown: "record_transaction demo_now demo_engine ''unknown'' 10 MARKETPLACE
      = (False, demo_engine)"
    by blast
  from entry
    record_transaction_spec [of demo_engine "''governance-platform''" demo_now "- 5" USAGE_BASED]
  have known:
    "fst (record_transaction demo_now demo_engine ''governance-platform'' (- 5) USAGE_BASED)"
    "total_revenue_history
        (snd (record_transaction demo_now demo_engine ''governance-platform'' (- 5) USAGE_BASED))
     = total_revenue_history demo_engine @
       [\<lparr>stream_type = USAGE_BASED, amount = - 5, currency = ''USD'',
         timestamp = demo_now, source_product = ''governance-platform''\<rparr>]"
    "map_option revenue_history
        (map_of (products
           (snd (record_transaction demo_now demo_engine ''governance-platform'' (- 5) USAGE_BASED)))
           ''governance-platform'')
     = Some [\<lparr>stream_type = USAGE_BASED, amount = - 5, currency = ''USD'',
              timestamp = demo_now, source_product = ''governance-platform''\<rparr>]"
    by (simp_all add: Let_def)
  show ?thesis
    using absent present unknown known empty by simp
qed

subsection \<open>Churn rate\<close>

text \<open>
  Claim C2, as the code has it. For every state and product id and all integer customer
  counts, \<open>calculate_churn_rate\<close> returns 0 when \<open>previous_customers\<close> is 0; otherwise,
  when the quotient \<open>max(0, previous_customers - current_customers) / previous_customers\<close>
  is within the range of a double, it returns that quotient times 100. With 2100
  previous and 2000 current customers it returns \<open>(100 / 2100) * 100\<close>.
\<close>

theorem calculate_churn_rate_value:
  "(previous_customers = 0 \<longrightarrow>
      fst (calculate_churn_rate s pid previous_customers current_customers period_days) = Inr 0)
   \<and> (previous_customers \<noteq> 0
        \<and> in_double_range
            (real_of_int (max 0 (previous_customers - current_customers))
               / real_of_int previous_customers) \<longrightarrow>
      fst (calculate_churn_rate s pid previous_customers current_customers period_days) =
        Inr (real_of_int (max 0 (previous_customers - current_customers))
               / real_of_int previous_customers * 100))
   \<and> fst (calculate_churn_rate s pid 2100 2000 period_days) = Inr ((100 / 2100) * 100)"
  by (simp add: calculate_churn_rate_def Let_def int_true_divide_in_range
      float_mul_int_small in_double_range_small)

theorem calculate_churn_rate_value_witness:
  "fst (calculate_churn_rate demo_engine ''mesh-messenger'' 0 2000 30) = Inr 0
   \<and> (2000::int) \<noteq> 0
   \<and> in_double_range (real_of_int (max 0 (2000 - 2100)) / real_of_int 2000)
   \<and> fst (calculate_churn_rate demo_engine ''mesh-messenger'' 2000 2100 30) = Inr 0
   \<and> (2100::int) \<noteq> 0
   \<and> in_double_range (real_of_int (max 0 (2100 - 2000)) / real_of_int 2100)
   \<and> fst (calculate_churn_rate demo_engine ''mesh-messenger'' 2100 2000 30) = Inr (100 / 21)"
proof -
  have growth: "in_double_range (real_of_int (max 0 (2000 - 2100)) / real_of_int 2000)"
    and loss: "in_double_range (real_of_int (max 0 (2100 - 2000)) / real_of_int 2100)"
    by (simp_all add: in_double_range_small)
  show ?thesis
    using growth loss
      calculate_churn_rate_value [of 0 demo_engine "''mesh-messenger''" 2000 30]
      calculate_churn_rate_value [of 2000 demo_engine "''mesh-messenger''" 2100 30]
      calculate_churn_rate_value [of 2100 demo_engine "''mesh-messenger''" 2000 30]
    by simp
qed

text \<open>
  Claim C2 as stated, for all integers, fails: with 1 previous customer and
  \<open>-(10 ** 400)\<close> current customers the quotient \<open>(10 ** 400 + 1) / 1\<close> is too large for
  a float, the division raises \<open>OverflowError\<close>, and no value is returned.
\<close>

theorem calculate_churn_rate_all_integers_counterexample:
  "calculate_churn_rate demo_engine ''mesh-messenger'' 1 (- (10 ^ 400)) 30
     = (Inl OverflowError, demo_engine)"
proof -
  have "\<not> in_double_range (real_of_int (max 0 (1 - - (10 ^ 400))) / real_of_int 1)"
    by (simp add: in_double_range_def DBL_OVERFLOW_def)
  then show ?thesis
    by (simp add: calculate_churn_rate_def Let_def int_true_divide_overflow)
qed

text \<open>
  Claim C7. Two calls of \<open>calculate_churn_rate\<close> that differ only in \<open>period_days\<close>
  return the same value and leave the engine in the same state.
\<close>

theorem calculate_churn_rate_period_days_inert:
  "calculate_churn_rate s pid previous_customers current_customers period_days =
   calculate_churn_rate s pid previous_customers current_customers period_days'"
  by (simp add: calculate_churn_rate_def)

theorem calculate_churn_rate_period_days_inert_witness:
  "calculate_churn_rate demo_engine ''mesh-messenger'' 2100 1900 30 =
   calculate_churn_rate demo_engine ''mesh-messenger'' 2100 1900 365"
  using calculate_churn_rate_period_days_inert
    [of demo_engine "''mesh-messenger''" 2100 1900 30 365]
  by simp

text \<open>
  Claim C9. With \<open>previous_customers = 0\<close>, \<open>calculate_churn_rate\<close> returns 0 and leaves
  the engine as it was, also for a registered product: the method returns before the
  store, so the product's record, its \<open>churn_rate\<close> included, stays what it was.
\<close>

theorem calculate_churn_rate_zero_previous:
  "calculate_churn_rate s pid 0 current_customers period_days = (Inr 0, s)
   \<and> (\<forall>p. map_of (products s) pid = Some p \<longrightarrow>
         map_of (products (snd (calculate_churn_rate s pid 0 current_customers period_days))) pid
           = Some p)"
  by (simp add: calculate_churn_rate_def)

theorem calculate_churn_rate_zero_previous_witness:
  "has_product demo_engine ''mesh-messenger''
   \<and> calculate_churn_rate demo_engine ''mesh-messenger'' 0 2000 30 = (Inr 0, demo_engine)
   \<and> map_option churn_rate
        (map_of (products (snd (calculate_churn_rate demo_engine ''mesh-messenger'' 0 2000 30)))
           ''mesh-messenger'') = Some (100 / 21)"
  using calculate_churn_rate_zero_previous [of demo_engine "''mesh-messenger''" 2000 30]
  by (simp add: demo_engine_def has_product_def)

subsection \<open>Lifetime value\<close>

text \<open>
  Claim C6, as the code has it. In every state and for all arguments whose
  \<open>avg_customer_lifespan_months\<close> is within the range of a double, \<open>calculate_ltv\<close>
  returns \<open>avg_monthly_revenue * avg_customer_lifespan_months\<close> (72.50 * 24 = 1740.0)
  and does not fail. For a registered \<open>product_id\<close> the result is stored as the product's
  \<open>lifetime_value\<close>; for an unregistered one the same value is returned, no failure is
  signalled and the state is unchanged.
\<close>

theorem calculate_ltv_spec:
  assumes "in_double_range (real_of_int avg_customer_lifespan_months)"
  shows "fst (calculate_ltv s pid avg_monthly_revenue avg_customer_lifespan_months)
       = Inr (avg_monthly_revenue * real_of_int avg_customer_lifespan_months)
     \<and> fst (calculate_ltv s pid 72.5 24) = Inr 1740
     \<and> (\<forall>p. map_of (products s) pid = Some p \<longrightarrow>
           map_of (products (snd (calculate_ltv s pid avg_monthly_revenue
                                    avg_customer_lifespan_months))) pid
             = Some (p\<lparr>lifetime_value :=
                          avg_monthly_revenue * real_of_int avg_customer_lifespan_months\<rparr>))
     \<and> (\<not> has_product s pid \<longrightarrow>
           calculate_ltv s pid avg_monthly_revenue avg_customer_lifespan_months
             = (Inr (avg_monthly_revenue * real_of_int avg_customer_lifespan_months), s))"
  using assms
  by (simp add: calculate_ltv_def has_product_def map_of_map_entry_same
      float_mul_int_in_range float_mul_int_small)

theorem calculate_ltv_spec_witness:
  "in_double_range (real_of_int 24)
   \<and> \<not> has_product demo_engine ''unknown''
   \<and> calculate_ltv demo_engine ''unknown'' 72.5 24 = (Inr 1740, demo_engine)
   \<and> has_product demo_engine ''governance-platform''
   \<and> fst (calculate_ltv demo_engine ''governance-platform'' 72.5 24) = Inr 1740
   \<and> map_option lifetime_value
        (map_of (products (snd (calculate_ltv demo_engine ''governance-platform'' 72.5 24)))
           ''governance-platform'') = Some 1740"
proof -
  have months: "in_double_range (real_of_int 24)"
    by (simp add: in_double_range_small)
  have absent: "\<not> has_product demo_engine ''unknown''"
    and present: "has_product demo_engine ''governance-platform''"
    and entry: "map_of (products demo_engine) ''governance-platform'' =
      Some \<lparr>product_id = ''governance-platform'',
           product_name = ''Zero-Human AI Governance Platform'',
           pricing_tier_min = 299, pricing_tier_max = 1999, monthly_recurring_revenue = 50000,
           active_customers = 50, churn_rate = 50 / 13, lifetime_value = 24000,
           revenue_history = []\<rparr>"
    by (simp_all add: demo_engine_def has_product_def)
  from absent calculate_ltv_spec [OF months, of demo_engine "''unknown''" "72.5"]
  have unknown: "calculate_ltv demo_engine ''unknown'' 72.5 24 = (Inr 1740, demo_engine)"
    by simp
  from entry calculate_ltv_spec [OF months, of demo_engine "''governance-platform''" "72.5"]
  have known: "fst (calculate_ltv demo_engine ''governance-platform'' 72.5 24) = Inr 1740"
    "map_option lifetime_value
        (map_of (products (snd (calculate_ltv demo_engine ''governance-platform'' 72.5 24)))
           ''governance-platform'') = Some 1740"
    by simp_all
  show ?thesis
    using months absent present unknown known by simp
qed

text \<open>
  Claim C6 as stated, for all arguments and without failure, fails: the int
  \<open>2 * 10 ** 308\<close> is too large to convert to a float, so the product raises
  \<open>OverflowError\<close>; nothing is returned, also for an unregistered id.
\<close>

theorem calculate_ltv_never_fails_counterexample:
  "calculate_ltv demo_engine ''unknown'' 72.5 (2 * 10 ^ 308) = (Inl OverflowError, demo_engine)"
proof -
  have "\<not> in_double_range (real_of_int (2 * 10 ^ 308))"
    by (simp add: in_double_range_def DBL_OVERFLOW_def)
  then show ?thesis
    by (simp add: calculate_ltv_def float_mul_int_overflow)
qed

subsection \<open>Portfolio summary\<close>

text \<open>
  Claim C4. In every state, \<open>get_portfolio_summary\<close> reports as total MRR the sum of
  the products' \<open>monthly_recurring_revenue\<close>, as total ARR that sum times 12, as total
  active customers the sum of the products' \<open>active_customers\<close>, and as average churn
  rate the arithmetic mean of the products' \<open>churn_rate\<close>, which is 0 when no product
  is registered. The sums range over the entries of the product mapping; when no key is
  repeated (the dict invariant), the total MRR is the sum over the registered ids.
\<close>

theorem get_portfolio_summary_totals:
  "total_mrr (fst (get_portfolio_summary s))
     = (\<Sum>p\<leftarrow>map snd (products s). monthly_recurring_revenue p)
   \<and> total_arr (fst (get_portfolio_summary s))
     = (\<Sum>p\<leftarrow>map snd (products s). monthly_recurring_revenue p) * 12
   \<and> total_active_customers (fst (get_portfolio_summary s))
     = (\<Sum>p\<leftarrow>map snd (products s). active_customers p)
   \<and> average_churn_rate (fst (get_portfolio_summary s))
     = (if products s = [] then 0
        else (\<Sum>p\<leftarrow>map snd (products s). churn_rate p) / real (length (products s)))
   \<and> total_products (fst (get_portfolio_summary s)) = length (products s)
   \<and> (wf_engine s \<longrightarrow>
        total_mrr (fst (get_portfolio_summary s))
          = (\<Sum>k\<in>dom (map_of (products s)).
               monthly_recurring_revenue (the (map_of (products s) k))))"
proof -
  have "wf_engine s \<Longrightarrow>
      (\<Sum>p\<leftarrow>map snd (products s). monthly_recurring_revenue p)
        = (\<Sum>k\<in>dom (map_of (products s)).
             monthly_recurring_revenue (the (map_of (products s) k)))"
    unfolding wf_engine_def by (rule sum_list_values_dom)
  then show ?thesis
    by (simp add: get_portfolio_summary_def Let_def py_sum_sum_list)
qed

theorem get_portfolio_summary_totals_witness:
  "total_mrr (fst (get_portfolio_summary demo_engine)) = 64500
   \<and> total_arr (fst (get_portfolio_summary demo_engine)) = 774000
   \<and> total_active_customers (fst (get_portfolio_summary demo_engine)) = 2050
   \<and> average_churn_rate (fst (get_portfolio_summary demo_engine)) = 1175 / 273
   \<and> average_churn_rate (fst (get_portfolio_summary (init_engine demo_now))) = 0
   \<and> wf_engine demo_engine
   \<and> (\<Sum>k\<in>dom (map_of (products demo_engine)).
         monthly_recurring_revenue (the (map_of (products demo_engine) k))) = 64500"
proof -
  have sums: "(\<Sum>p\<leftarrow>map snd (products demo_engine). monthly_recurring_revenue p) = 64500"
    "(\<Sum>p\<leftarrow>map snd (products demo_engine). active_customers p) = 2050"
    "(\<Sum>p\<leftarrow>map snd (products demo_engine). churn_rate p) = 2350 / 273"
    "length (products demo_engine) = 2"
    "products demo_engine \<noteq> []"
    "products (init_engine demo_now) = []"
    by (simp_all add: demo_engine_def init_engine_def)
  have wf: "wf_engine demo_engine"
    by (simp add: demo_engine_def wf_engine_def)
  note demo = get_portfolio_summary_totals [of demo_engine]
  note fresh = get_portfolio_summary_totals [of "init_engine demo_now"]
  have "total_mrr (fst (get_portfolio_summary demo_engine)) = 64500"
    and "total_arr (fst (get_portfolio_summary demo_engine)) = 774000"
    and "total_active_customers (fst (get_portfolio_summary demo_engine)) = 2050"
    and "average_churn_rate (fst (get_portfolio_summary demo_engine)) = 1175 / 273"
    using demo sums by simp_all
  moreover have "average_churn_rate (fst (get_portfolio_summary (init_engine demo_now))) = 0"
    using fresh sums by simp
  moreover have "(\<Sum>k\<in>dom (map_of (products demo_engine)).
         monthly_recurring_revenue (the (map_of (products demo_engine) k))) = 64500"
    using demo wf sums(1) by metis
  ultimately show ?thesis
    using wf by blast
qed

subsection \<open>Projection\<close>

text \<open>While no power raises, the inner loop adds the products' projections to its total.\<close>

lemma total_projected_loop_in_range:
  "\<forall>p\<in>set ps. float_pow_int (1 - churn_rate p / 100) mon
       = Inr ((1 - churn_rate p / 100) ^ nat mon) \<Longrightarrow>
     total_projected_loop ps mon acc =
       Inr (acc + (\<Sum>p\<leftarrow>ps. monthly_recurring_revenue p * (1 - churn_rate p / 100) ^ nat mon))"
  by (induction ps arbitrary: acc) (simp_all add: Let_def add.assoc)

text \<open>A power that raises ends the inner loop with the exception.\<close>

lemma total_projected_loop_error:
  "0 \<le> mon \<Longrightarrow> total_projected_loop ps mon acc = Inl e \<Longrightarrow> e = OverflowError"
proof (induction ps arbitrary: acc)
  case Nil
  then show ?case by simp
next
  case (Cons p ps)
  show ?case
  proof (cases "float_pow_int (1 - churn_rate p / 100) mon")
    case (Inl e')
    with Cons.prems show ?thesis
      by (auto simp: Let_def dest: float_pow_int_error)
  next
    case (Inr factor)
    with Cons.prems Cons.IH show ?thesis
      by (simp add: Let_def)
  qed
qed

lemma total_projected_loop_overflow:
  "0 \<le> mon \<Longrightarrow>
     \<exists>p\<in>set ps. float_pow_int (1 - churn_rate p / 100) mon = Inl OverflowError \<Longrightarrow>
     total_projected_loop ps mon acc = Inl OverflowError"
proof (induction ps arbitrary: acc)
  case Nil
  then show ?case by simp
next
  case (Cons p ps)
  show ?case
  proof (cases "float_pow_int (1 - churn_rate p / 100) mon")
    case (Inl e')
    with Cons.prems(1) have "e' = OverflowError"
      by (rule_tac float_pow_int_error)
    with Inl show ?thesis
      by (simp add: Let_def)
  next
    case (Inr factor)
    with Cons.prems(2)
    have "\<exists>p\<in>set ps. float_pow_int (1 - churn_rate p / 100) mon = Inl OverflowError"
      by auto
    with Cons.prems(1) Inr Cons.IH show ?thesis
      by (simp add: Let_def)
  qed
qed

lemma datetime_add_days_error: "datetime_add_days d n = Inl e \<Longrightarrow> e = OverflowError"
  by (auto simp: datetime_add_days_def split: if_splits)

text \<open>
  While every date is in range and no power raises, the outer loop appends one entry
  per month, in order.
\<close>

lemma project_months_in_range:
  "\<forall>mon\<in>set ms.
      datetime_add_days cd (30 * mon) = Inr (fst cd + 30 * mon, snd cd)
    \<and> total_projected_loop (map snd ps) mon 0 = Inr (total_projected_of ps mon) \<Longrightarrow>
     project_months cd ps ms projs = Inr (projs @ map (projection_of cd ps) ms)"
  by (induction ms arbitrary: projs) (simp_all add: projection_of_def)

text \<open>A month whose date or whose sum raises ends the outer loop with the exception.\<close>

lemma project_months_overflow:
  "\<forall>mon\<in>set ms. 0 \<le> mon \<Longrightarrow>
     \<exists>mon\<in>set ms. datetime_add_days cd (30 * mon) = Inl OverflowError
       \<or> total_projected_loop (map snd ps) mon 0 = Inl OverflowError \<Longrightarrow>
     project_months cd ps ms projs = Inl OverflowError"
proof (induction ms arbitrary: projs)
  case Nil
  then show ?case by simp
next
  case (Cons mon ms)
  from Cons.prems(1) have mon: "0 \<le> mon" and rest: "\<forall>mon\<in>set ms. 0 \<le> mon"
    by simp_all
  show ?case
  proof (cases "datetime_add_days cd (30 * mon)")
    case (Inl e)
    then have "e = OverflowError"
      by (rule datetime_add_days_error)
    with Inl show ?thesis by simp
  next
    case date: (Inr d)
    show ?thesis
    proof (cases "total_projected_loop (map snd ps) mon 0")
      case (Inl e)
      with mon have "e = OverflowError"
        by (rule_tac total_projected_loop_error)
      with Inl date show ?thesis by simp
    next
      case (Inr acc)
      with date Cons.prems(2)
      have "\<exists>mon\<in>set ms. datetime_add_days cd (30 * mon) = Inl OverflowError
              \<or> total_projected_loop (map snd ps) mon 0 = Inl OverflowError"
        by auto
      with rest have "project_months cd ps ms
          (projs @ [\<lparr>month = mon, date = d, projected_mrr = acc,
                      projected_arr = acc * 12\<rparr>]) = Inl OverflowError"
        by (rule Cons.IH)
      with date Inr show ?thesis by simp
    qed
  qed
qed

lemma datetime_add_days_in_range:
  assumes "valid_datetime cd" "1 \<le> mon" "mon \<le> months" "fst cd + 30 * months \<le> MAXORDINAL"
  shows "datetime_add_days cd (30 * mon) = Inr (fst cd + 30 * mon, snd cd)"
  using assms by (auto simp: datetime_add_days_def valid_datetime_def MAXORDINAL_def)

lemma total_projected_loop_month:
  assumes "valid_datetime cd" "1 \<le> mon" "mon \<le> months" "fst cd + 30 * months \<le> MAXORDINAL"
    and "\<forall>p\<in>set (map snd ps). in_double_range ((1 - churn_rate p / 100) ^ nat months)"
  shows "total_projected_loop (map snd ps) mon 0 = Inr (total_projected_of ps mon)"
proof -
  have "\<bar>real_of_int mon\<bar> \<le> 1000000"
    using assms(1-4) by (simp add: valid_datetime_def MAXORDINAL_def)
  then have index: "in_double_range (real_of_int mon)"
    by (rule in_double_range_small)
  have "float_pow_int (1 - churn_rate p / 100) mon = Inr ((1 - churn_rate p / 100) ^ nat mon)"
    if "p \<in> set (map snd ps)" for p
  proof -
    from that assms(5) have "in_double_range ((1 - churn_rate p / 100) ^ nat months)"
      by blast
    moreover have "nat mon \<le> nat months"
      using assms(3) by simp
    ultimately have "in_double_range ((1 - churn_rate p / 100) ^ nat mon)"
      by (rule in_double_range_power_mono)
    with assms(2) index show ?thesis
      by (simp add: float_pow_int_in_range)
  qed
  then have "total_projected_loop (map snd ps) mon 0 =
      Inr (0 + (\<Sum>p\<leftarrow>map snd ps.
                  monthly_recurring_revenue p * (1 - churn_rate p / 100) ^ nat mon))"
    by (intro total_projected_loop_in_range) blast
  then show ?thesis
    by (simp add: total_projected_of_def)
qed

lemma project_revenue_in_range:
  assumes "valid_datetime now" "fst now + 30 * months \<le> MAXORDINAL"
    and "\<forall>p\<in>set (map snd (products s)). in_double_range ((1 - churn_rate p / 100) ^ nat months)"
  shows "fst (project_revenue now s months) =
           Inr \<lparr>projection_period_months = months,
                projections = map (projection_of now (products s)) [1..months]\<rparr>"
proof -
  have "datetime_add_days now (30 * mon) = Inr (fst now + 30 * mon, snd now)
        \<and> total_projected_loop (map snd (products s)) mon 0
            = Inr (total_projected_of (products s) mon)"
    if "mon \<in> set [1..months]" for mon
  proof -
    from that have lower: "1 \<le> mon" and upper: "mon \<le> months"
      by simp_all
    show ?thesis
      using datetime_add_days_in_range [OF assms(1) lower upper assms(2)]
        total_projected_loop_month [OF assms(1) lower upper assms(2) assms(3)]
      by (rule conjI)
  qed
  then have "\<forall>mon\<in>set [1..months].
          datetime_add_days now (30 * mon) = Inr (fst now + 30 * mon, snd now)
        \<and> total_projected_loop (map snd (products s)) mon 0
            = Inr (total_projected_of (products s) mon)"
    by blast
  then show ?thesis
    by (simp add: project_revenue_def project_months_in_range)
qed

lemma project_revenue_date_overflow:
  assumes "1 \<le> months" "MAXORDINAL < fst now + 30 * months"
  shows "fst (project_revenue now s months) = Inl OverflowError"
proof -
  have "datetime_add_days now (30 * months) = Inl OverflowError"
    using assms by (simp add: datetime_add_days_def)
  with assms(1)
  have "\<exists>mon\<in>set [1..months]. datetime_add_days now (30 * mon) = Inl OverflowError
          \<or> total_projected_loop (map snd (products s)) mon 0 = Inl OverflowError"
    by (intro bexI [of _ months]) simp_all
  moreover have "\<forall>mon\<in>set [1..months]. 0 \<le> mon"
    by simp
  ultimately have "project_months now (products s) [1..months] [] = Inl OverflowError"
    by (rule project_months_overflow [rotated])
  then show ?thesis by (simp add: project_revenue_def)
qed

lemma project_revenue_power_overflow:
  assumes "1 \<le> months" "p \<in> set (map snd (products s))"
    and "\<not> in_double_range ((1 - churn_rate p / 100) ^ nat months)"
  shows "fst (project_revenue now s months) = Inl OverflowError"
proof -
  have "float_pow_int (1 - churn_rate p / 100) months = Inl OverflowError"
    using assms(1,3) by (simp add: float_pow_int_overflow)
  with assms(1,2)
  have "total_projected_loop (map snd (products s)) months 0 = Inl OverflowError"
    by (intro total_projected_loop_overflow) auto
  with assms(1)
  have "\<exists>mon\<in>set [1..months]. datetime_add_days now (30 * mon) = Inl OverflowError
          \<or> total_projected_loop (map snd (products s)) mon 0 = Inl OverflowError"
    by (intro bexI [of _ months]) simp_all
  moreover have "\<forall>mon\<in>set [1..months]. 0 \<le> mon"
    by simp
  ultimately have "project_months now (products s) [1..months] [] = Inl OverflowError"
    by (rule project_months_overflow [rotated])
  then show ?thesis by (simp add: project_revenue_def)
qed

text \<open>
  Claim C8. \<open>project_revenue\<close> leaves the engine as it was, for every state, clock
  reading and \<open>months\<close>, whether it returns its projections or raises: the product
  mapping with every record and the global history are the same afterwards.
\<close>

theorem project_revenue_frame:
  "snd (project_revenue now s months) = s"
  by (simp add: project_revenue_def split: sum.splits)

theorem project_revenue_frame_witness:
  "snd (project_revenue demo_now demo_engine 12) = demo_engine
   \<and> snd (project_revenue demo_now demo_recorded 100000) = demo_recorded"
  using project_revenue_frame [of demo_now demo_engine 12]
    project_revenue_frame [of demo_now demo_recorded 100000]
  by simp

text \<open>
  Claim C1, as the code has it. For every state, every valid clock reading and every
  \<open>months \<ge> 1\<close> such that the last projection date, \<open>30 * months\<close> days after the clock
  reading, is still a date of the calendar (not after 9999-12-31) and such that for every
  product the power \<open>(1 - churn_rate / 100) ** months\<close> is within the range of a double,
  \<open>project_revenue(months)\<close> returns \<open>months\<close> entries with the month indices
  1, ..., \<open>months\<close>, strictly increasing; the projected MRR of month \<open>m\<close> is the sum over
  the products of \<open>target_mrr * (1 - churn_rate / 100) ** m\<close>, and the projected ARR is
  12 times that. A product with \<open>churn_rate = 0\<close> adds its target MRR, unchanged, to
  every month.
\<close>

theorem project_revenue_projections:
  assumes "valid_datetime now" and "1 \<le> months" and "fst now + 30 * months \<le> MAXORDINAL"
    and "\<forall>p\<in>set (map snd (products s)). in_double_range ((1 - churn_rate p / 100) ^ nat months)"
  shows "\<exists>r. fst (project_revenue now s months) = Inr r
           \<and> projection_period_months r = months
           \<and> length (projections r) = nat months
           \<and> map month (projections r) = [1..months]
           \<and> sorted_wrt (<) (map month (projections r))
           \<and> (\<forall>i<nat months.
                 month (projections r ! i) = int i + 1
               \<and> projected_mrr (projections r ! i)
                   = (\<Sum>p\<leftarrow>map snd (products s).
                        monthly_recurring_revenue p * (1 - churn_rate p / 100) ^ (i + 1))
               \<and> projected_arr (projections r ! i) = projected_mrr (projections r ! i) * 12
               \<and> (\<forall>p\<in>set (map snd (products s)). churn_rate p = 0 \<longrightarrow>
                     projected_mrr (projections r ! i)
                       = monthly_recurring_revenue p
                         + (\<Sum>q\<leftarrow>remove1 p (map snd (products s)).
                              monthly_recurring_revenue q * (1 - churn_rate q / 100) ^ (i + 1))))"
proof -
  let ?r = "\<lparr>projection_period_months = months,
             projections = map (projection_of now (products s)) [1..months]\<rparr>"
  let ?f = "\<lambda>i p. monthly_recurring_revenue p * (1 - churn_rate p / 100) ^ (i + 1)"
  have ret: "fst (project_revenue now s months) = Inr ?r"
    using assms(1,3,4) by (rule project_revenue_in_range)
  have period: "projection_period_months ?r = months"
    by simp
  have len: "length (projections ?r) = nat months"
    by simp
  have months_eq: "map month (projections ?r) = [1..months]"
    by (simp add: projection_of_def comp_def)
  have incr: "sorted_wrt (<) (map month (projections ?r))"
    unfolding months_eq by (simp add: sorted_wrt_iff_nth_less nth_upto)
  have entry: "projections ?r ! i = projection_of now (products s) (int i + 1)"
    if "i < nat months" for i
    using that by (simp add: nth_upto add.commute)
  have mrr: "projected_mrr (projections ?r ! i) = (\<Sum>p\<leftarrow>map snd (products s). ?f i p)"
    if "i < nat months" for i
    using that
    by (simp only: entry)
      (simp add: projection_of_def total_projected_of_def nat_add_distrib comp_def)
  have no_churn: "projected_mrr (projections ?r ! i)
      = monthly_recurring_revenue p + (\<Sum>q\<leftarrow>remove1 p (map snd (products s)). ?f i q)"
    if "i < nat months" "p \<in> set (map snd (products s))" "churn_rate p = 0" for i p
  proof -
    have own: "?f i p = monthly_recurring_revenue p"
      using that(3) by simp
    have "projected_mrr (projections ?r ! i) = (\<Sum>q\<leftarrow>map snd (products s). ?f i q)"
      using that(1) by (rule mrr)
    also have "\<dots> = ?f i p + (\<Sum>q\<leftarrow>remove1 p (map snd (products s)). ?f i q)"
      using that(2) by (rule sum_list_map_remove1)
    finally show ?thesis
      by (simp only: own)
  qed
  have each: "\<forall>i<nat months.
        month (projections ?r ! i) = int i + 1
      \<and> projected_mrr (projections ?r ! i) = (\<Sum>p\<leftarrow>map snd (products s). ?f i p)
      \<and> projected_arr (projections ?r ! i) = projected_mrr (projections ?r ! i) * 12
      \<and> (\<forall>p\<in>set (map snd (products s)). churn_rate p = 0 \<longrightarrow>
            projected_mrr (projections ?r ! i)
              = monthly_recurring_revenue p
                + (\<Sum>q\<leftarrow>remove1 p (map snd (products s)). ?f i q))"
  proof (intro allI impI conjI ballI)
    fix i
    assume i: "i < nat months"
    show "month (projections ?r ! i) = int i + 1"
      using i by (simp only: entry) (simp add: projection_of_def)
    show "projected_mrr (projections ?r ! i) = (\<Sum>p\<leftarrow>map snd (products s). ?f i p)"
      using i by (rule mrr)
    show "projected_arr (projections ?r ! i) = projected_mrr (projections ?r ! i) * 12"
      using i by (simp only: entry) (simp add: projection_of_def)
    show "projected_mrr (projections ?r ! i)
      = monthly_recurring_revenue p + (\<Sum>q\<leftarrow>remove1 p (map snd (products s)). ?f i q)"
      if "p \<in> set (map snd (products s))" "churn_rate p = 0" for p
      using i that by (rule no_churn)
  qed
  show ?thesis
    by (rule exI [of _ ?r])
      (intro conjI, rule ret, rule period, rule len, rule months_eq, rule incr, rule each)
qed

theorem project_revenue_projections_witness:
  "valid_datetime demo_now \<and> (1::int) \<le> 12 \<and> fst demo_now + 30 * 12 \<le> MAXORDINAL
   \<and> list_all (\<lambda>p. in_double_range ((1 - churn_rate p / 100) ^ nat 12))
        (map snd (products demo_with_p1))
   \<and> (\<exists>r. fst (project_revenue demo_now demo_with_p1 12) = Inr r
          \<and> length (projections r) = 12
          \<and> map month (projections r) = [1, 2, 3, 4, 5, 6, 7, 8, 9, 10, 11, 12]
          \<and> projected_mrr (projections r ! 0)
              = 14500 * (20 / 21) + 50000 * (25 / 26) + 14500
          \<and> projected_arr (projections r ! 0)
              = (14500 * (20 / 21) + 50000 * (25 / 26) + 14500) * 12
          \<and> projected_mrr (projections r ! 1)
              = 14500 + (14500 * (20 / 21) ^ 2 + 50000 * (25 / 26) ^ 2)
          \<and> projected_mrr (projections r ! 11)
              = 14500 * (20 / 21) ^ 12 + 50000 * (25 / 26) ^ 12 + 14500)"
proof -
  let ?p1 = "\<lparr>product_id = ''p1'', product_name = ''Demo'',
       pricing_tier_min = 9, pricing_tier_max = 99, monthly_recurring_revenue = 14500,
       active_customers = 0, churn_rate = 0, lifetime_value = 0, revenue_history = []\<rparr>"
  have clock: "valid_datetime demo_now" and range: "fst demo_now + 30 * 12 \<le> MAXORDINAL"
    by (simp_all add: valid_datetime_def demo_now_def MAXORDINAL_def)
  have one: "(1::int) \<le> 12"
    by simp
  have powers: "\<forall>p\<in>set (map snd (products demo_with_p1)).
      in_double_range ((1 - churn_rate p / 100) ^ nat 12)"
    by (auto simp: demo_with_p1_products in_double_range_small
        intro!: in_double_range_power_le_one)
  have upto: "[1..12] = [1, 2, 3, 4, 5, 6, 7, 8, 9, 10, 11, 12::int]"
    by code_simp
  from project_revenue_projections [OF clock one range powers]
  obtain r where r: "fst (project_revenue demo_now demo_with_p1 12) = Inr r"
    "length (projections r) = nat 12"
    "map month (projections r) = [1..12]"
    "\<forall>i<nat 12.
        month (projections r ! i) = int i + 1
      \<and> projected_mrr (projections r ! i)
          = (\<Sum>p\<leftarrow>map snd (products demo_with_p1).
               monthly_recurring_revenue p * (1 - churn_rate p / 100) ^ (i + 1))
      \<and> projected_arr (projections r ! i) = projected_mrr (projections r ! i) * 12
      \<and> (\<forall>p\<in>set (map snd (products demo_with_p1)). churn_rate p = 0 \<longrightarrow>
            projected_mrr (projections r ! i)
              = monthly_recurring_revenue p
                + (\<Sum>q\<leftarrow>remove1 p (map snd (products demo_with_p1)).
                     monthly_recurring_revenue q * (1 - churn_rate q / 100) ^ (i + 1)))"
    by auto
  have first: "projected_mrr (projections r ! 0)
      = 14500 * (20 / 21) + 50000 * (25 / 26) + 14500"
    "projected_arr (projections r ! 0)
      = (14500 * (20 / 21) + 50000 * (25 / 26) + 14500) * 12"
    using r(4) [rule_format, of 0] by (simp_all add: demo_with_p1_products)
  have member: "?p1 \<in> set (map snd (products demo_with_p1))" and free: "churn_rate ?p1 = 0"
    by (simp_all add: demo_with_p1_products)
  have idx: "(1::nat) < nat 12"
    by simp
  note at_second = r(4) [rule_format, OF idx]
  have "projected_mrr (projections r ! 1)
      = monthly_recurring_revenue ?p1
        + (\<Sum>q\<leftarrow>remove1 ?p1 (map snd (products demo_with_p1)).
             monthly_recurring_revenue q * (1 - churn_rate q / 100) ^ (1 + 1))"
    using at_second [THEN conjunct2, THEN conjunct2, THEN conjunct2, rule_format,
        OF member free] .
  also have "\<dots> = 14500 + (14500 * (20 / 21) ^ 2 + 50000 * (25 / 26) ^ 2)"
    by (simp add: demo_with_p1_products power2_eq_square)
  finally have second: "projected_mrr (projections r ! 1)
      = 14500 + (14500 * (20 / 21) ^ 2 + 50000 * (25 / 26) ^ 2)" .
  have last: "projected_mrr (projections r ! 11)
      = 14500 * (20 / 21) ^ 12 + 50000 * (25 / 26) ^ 12 + 14500"
    using r(4) [rule_format, of 11] by (simp add: demo_with_p1_products)
  have all: "list_all (\<lambda>p. in_double_range ((1 - churn_rate p / 100) ^ nat 12))
        (map snd (products demo_with_p1))"
    using powers by (simp add: list_all_iff)
  show ?thesis
    using clock range all r(1,2,3) first second last upto by auto
qed

text \<open>
  Claim C1 as stated, for every state and every \<open>months \<ge> 1\<close>, fails twice. On 2025-12-01
  a projection over 100000 months reaches past the last date of the calendar, and the
  date arithmetic raises \<open>OverflowError\<close>. With a product of churn rate -100 the churn
  factor is 2, and in a projection over 1024 months, whose dates are all in range, the
  power \<open>2.0 ** 1024\<close> raises \<open>OverflowError\<close>. Either way no entry is returned.
\<close>

theorem project_revenue_months_counterexample:
  "(1::int) \<le> 100000 \<and> valid_datetime demo_now
   \<and> fst (project_revenue demo_now demo_engine 100000) = Inl OverflowError
   \<and> (1::int) \<le> 1024 \<and> fst demo_now + 30 * 1024 \<le> MAXORDINAL
   \<and> fst (project_revenue demo_now growth_engine 1024) = Inl OverflowError"
proof -
  let ?x = "\<lparr>product_id = ''x'', product_name = ''Growth'',
       pricing_tier_min = 1, pricing_tier_max = 2, monthly_recurring_revenue = 100,
       active_customers = 0, churn_rate = - 100, lifetime_value = 0, revenue_history = []\<rparr>"
  have dates: "fst (project_revenue demo_now demo_engine 100000) = Inl OverflowError"
    by (rule project_revenue_date_overflow) (simp_all add: demo_now_def MAXORDINAL_def)
  have member: "?x \<in> set (map snd (products growth_engine))"
    by (simp add: growth_engine_products)
  have "\<not> in_double_range ((2::real) ^ 1024)"
    by (simp add: in_double_range_def DBL_OVERFLOW_def)
  then have "\<not> in_double_range ((1 - churn_rate ?x / 100) ^ nat 1024)"
    by simp
  with member have power: "fst (project_revenue demo_now growth_engine 1024) = Inl OverflowError"
    by (intro project_revenue_power_overflow [of 1024 ?x]) simp_all
  show ?thesis
    using dates power by (simp add: valid_datetime_def demo_now_def MAXORDINAL_def)
qed

end
